theory Spec2Isabelle
  imports Main
begin

section \<open>Cluster objects\<close>

text \<open>
  \<^verbatim>\<open>util.NamespacedName\<close> (and the structurally identical \<^verbatim>\<open>types.NamespacedName\<close> of
  the Kubernetes API machinery): a namespace and a name.
\<close>

record NamespacedName =
  Namespace :: string
  Name :: string

text \<open>
  The object metadata every Kubernetes object embeds. A Go \<^verbatim>\<open>map[string]string\<close> is a
  partial map; the lookup \<^verbatim>\<open>_, ok := m[k]\<close> only asks whether the key is present.
\<close>

record ObjectMeta =
  Name :: string
  Namespace :: string
  Labels :: "string \<rightharpoonup> string"

record PodStatus =
  Phase :: string

text \<open>
  \<^verbatim>\<open>corev1.Pod\<close>: the fields the handlers read (\<^verbatim>\<open>pod.Name\<close>, \<^verbatim>\<open>pod.Namespace\<close>,
  \<^verbatim>\<open>pod.Labels\<close> are promoted from the embedded metadata). Everything else a pod carries
  lives in the record's extension, so the handlers are defined over \<open>'p Pod_scheme\<close>.
\<close>

record Pod = ObjectMeta +
  Status :: PodStatus

record VirtualMachineStatus =
  PodName :: string

text \<open>\<^verbatim>\<open>vmapi.VirtualMachine\<close>: metadata, \<^verbatim>\<open>Status.PodName\<close>, and the rest as extension.\<close>

record VirtualMachine = ObjectMeta +
  Status :: VirtualMachineStatus

text \<open>
  \<^verbatim>\<open>api.VmInfo\<close>: the handlers read \<^verbatim>\<open>Namespace\<close> and \<^verbatim>\<open>ScalingEnabled\<close>; the resources
  that \<^verbatim>\<open>EqualScalingBounds\<close> compares live in the extension.
\<close>

record VmInfo =
  Name :: string
  Namespace :: string
  ScalingEnabled :: bool

section \<open>Observable effects of the handlers\<close>

text \<open>
  A handler returns nothing; what it does is call the logger and the submit callbacks it
  was given. The model returns these calls in the order the handler makes them.
\<close>

datatype logarg = ArgName NamespacedName | ArgErr string

datatype klog = Infof string "logarg list" | Errorf string "logarg list"

datatype pod_call =
    Pod_klog klog
  | submitVMDeletion NamespacedName
  | submitPodDeletion NamespacedName

datatype ('v, 'i) vm_call =
    VM_klog klog
  | api_ExtractVmInfo 'v
  | submitVMDisabledScaling NamespacedName
  | submitVMBoundsChanged 'i string

text \<open>
  Modelled from the spec: \<^verbatim>\<open>util.GetNamespacedName\<close> is not among the sources; the spec
  describes a NamespacedName as the (namespace, name) pair identifying a cluster object.
  The handlers use it only for the arguments of log lines.
\<close>

definition GetNamespacedName :: "'a ObjectMeta_scheme \<Rightarrow> NamespacedName" where
  "GetNamespacedName obj =
     \<lparr>NamespacedName.Namespace = ObjectMeta.Namespace obj, Name = ObjectMeta.Name obj\<rparr>"

section \<open>Pod events (\<^verbatim>\<open>watchPodEvents\<close>)\<close>

text \<open>
  The two closures of \<^verbatim>\<open>watchPodEvents\<close>. The label key \<^verbatim>\<open>LabelVM\<close> and the predicate
  \<^verbatim>\<open>util.PodCompleted\<close> are defined outside the sources and are parameters here.
\<close>

definition watchPodEvents_UpdateFunc ::
  "string \<Rightarrow> ('p Pod_scheme \<Rightarrow> bool) \<Rightarrow> 'p Pod_scheme \<Rightarrow> 'p Pod_scheme \<Rightarrow> pod_call list" where
  "watchPodEvents_UpdateFunc LabelVM PodCompleted oldPod newPod =
     (if \<not> PodCompleted oldPod \<and> PodCompleted newPod then
        let name = \<lparr>NamespacedName.Namespace = ObjectMeta.Namespace newPod,
                    Name = ObjectMeta.Name newPod\<rparr>
        in Pod_klog (Infof
             ''[autoscale-enforcer] watch: Received update event for completion of pod %v''
             [ArgName name])
           # (if Labels newPod LabelVM \<noteq> None then [submitVMDeletion name]
              else [submitPodDeletion name])
      else [])"

definition watchPodEvents_DeleteFunc ::
  "string \<Rightarrow> ('p Pod_scheme \<Rightarrow> bool) \<Rightarrow> 'p Pod_scheme \<Rightarrow> bool \<Rightarrow> pod_call list" where
  "watchPodEvents_DeleteFunc LabelVM PodCompleted pod mayBeStale =
     (let name = \<lparr>NamespacedName.Namespace = ObjectMeta.Namespace pod,
                  Name = ObjectMeta.Name pod\<rparr>
      in if PodCompleted pod then
           [Pod_klog (Infof
              ''[autoscale-enforcer] watch: Received delete event for completed pod %v''
              [ArgName name])]
         else
           Pod_klog (Infof
              ''[autoscale-enforcer] watch: Received delete event for pod %v''
              [ArgName name])
           # (if Labels pod LabelVM \<noteq> None then [submitVMDeletion name]
              else [submitPodDeletion name]))"

text \<open>The work items among a handler's calls: everything but the log lines.\<close>

fun is_pod_submit :: "pod_call \<Rightarrow> bool" where
  "is_pod_submit (Pod_klog _) = False"
| "is_pod_submit (submitVMDeletion _) = True"
| "is_pod_submit (submitPodDeletion _) = True"

definition pod_submitted :: "pod_call list \<Rightarrow> pod_call list" where
  "pod_submitted calls = filter is_pod_submit calls"

section \<open>VM events (\<^verbatim>\<open>watchVMEvents\<close>)\<close>

text \<open>
  The update closure of \<^verbatim>\<open>watchVMEvents\<close>. \<^verbatim>\<open>api.ExtractVmInfo\<close> (which returns the
  info or an error, here the error's message) and \<^verbatim>\<open>VmInfo.EqualScalingBounds\<close> are
  defined outside the sources and are parameters. Each call of the extraction is
  recorded, so that the trace shows which objects were extracted.
\<close>

definition watchVMEvents_UpdateFunc ::
  "('v VirtualMachine_scheme \<Rightarrow> string + 'i VmInfo_scheme) \<Rightarrow>
   ('i VmInfo_scheme \<Rightarrow> 'i VmInfo_scheme \<Rightarrow> bool) \<Rightarrow>
   'v VirtualMachine_scheme \<Rightarrow> 'v VirtualMachine_scheme \<Rightarrow>
   ('v VirtualMachine_scheme, 'i VmInfo_scheme) vm_call list" where
  "watchVMEvents_UpdateFunc ExtractVmInfo EqualScalingBounds oldVM newVM =
     api_ExtractVmInfo oldVM #
     (case ExtractVmInfo oldVM of
        Inl err \<Rightarrow>
          [VM_klog (Errorf ''[autoscale-enforcer] Error extracting VM info for %v: %s''
                      [ArgName (GetNamespacedName oldVM), ArgErr err])]
      | Inr oldInfo \<Rightarrow>
          api_ExtractVmInfo newVM #
          (case ExtractVmInfo newVM of
             Inl err \<Rightarrow>
               [VM_klog (Errorf ''[autoscale-enforcer] Error extracting VM info for %v: %s''
                           [ArgName (GetNamespacedName newVM), ArgErr err])]
           | Inr newInfo \<Rightarrow>
               if PodName (VirtualMachine.Status newVM) = [] then
                 [VM_klog (Infof
                    ''[autoscale-enforcer] Skipping update for VM %v because .status.podName is empty''
                    [ArgName (GetNamespacedName newVM)])]
               else
                 (if ScalingEnabled oldInfo \<and> \<not> ScalingEnabled newInfo then
                    let name = \<lparr>NamespacedName.Namespace = VmInfo.Namespace newInfo,
                                Name = PodName (VirtualMachine.Status newVM)\<rparr>
                    in [VM_klog (Infof
                          ''[autoscale-enforcer] watch: Received update to disable autoscaling for pod %v''
                          [ArgName name]),
                        submitVMDisabledScaling name]
                  else [])
                 @ (if PodName (VirtualMachine.Status oldVM)
                        \<noteq> PodName (VirtualMachine.Status newVM) then []
                    else if EqualScalingBounds oldInfo newInfo then []
                    else [submitVMBoundsChanged newInfo (PodName (VirtualMachine.Status newVM))])))"

fun is_disabled_scaling :: "('v, 'i) vm_call \<Rightarrow> bool" where
  "is_disabled_scaling (submitVMDisabledScaling _) = True"
| "is_disabled_scaling _ = False"

fun is_bounds_changed :: "('v, 'i) vm_call \<Rightarrow> bool" where
  "is_bounds_changed (submitVMBoundsChanged _ _) = True"
| "is_bounds_changed _ = False"

fun is_extraction :: "('v, 'i) vm_call \<Rightarrow> bool" where
  "is_extraction (api_ExtractVmInfo _) = True"
| "is_extraction _ = False"

definition vm_submitted :: "('v, 'i) vm_call list \<Rightarrow> ('v, 'i) vm_call list" where
  "vm_submitted calls = filter (\<lambda>c. is_disabled_scaling c \<or> is_bounds_changed c) calls"

section \<open>The \<^verbatim>\<open>-skip-update-validation-for\<close> flag\<close>

subsection \<open>Go's \<^verbatim>\<open>strings\<close> functions used by the parser\<close>

text \<open>
  \<^verbatim>\<open>strings.Index\<close>: the position of the first occurrence of \<open>substr\<close>, \<open>None\<close> for
  Go's \<open>-1\<close>. Strings are byte lists.
\<close>

fun Index :: "string \<Rightarrow> string \<Rightarrow> nat option" where
  "Index [] substr = (if substr = [] then Some 0 else None)"
| "Index (c # cs) substr =
     (if take (length substr) (c # cs) = substr then Some 0
      else map_option Suc (Index cs substr))"

text \<open>\<^verbatim>\<open>strings.Count\<close>: the number of non-overlapping occurrences.\<close>

function Count :: "string \<Rightarrow> string \<Rightarrow> nat" where
  "Count s substr =
     (if substr = [] then length s + 1
      else case Index s substr of
             None \<Rightarrow> 0
           | Some m \<Rightarrow> 1 + Count (drop (m + length substr) s) substr)"
  by pat_completeness auto
termination
proof (relation "measure (\<lambda>(s, substr). length s)")
  show "wf (measure (\<lambda>(s, substr). length s))" by simp
next
  fix s substr :: string and m
  assume nonempty: "substr \<noteq> []" and found: "Index s substr = Some m"
  have inside: "Index t substr = Some k \<Longrightarrow> k + length substr \<le> length t" for t k
  proof (induction t arbitrary: k)
    case Nil
    then show ?case by (simp split: if_splits)
  next
    case (Cons c cs)
    show ?case
    proof (cases "take (length substr) (c # cs) = substr")
      case True
      then have "length (take (length substr) (c # cs)) = length substr"
        by (simp only:)
      then have "length substr \<le> length (c # cs)"
        by (simp only: length_take)
      with True Cons.prems show ?thesis by simp
    next
      case False
      with Cons.prems obtain j where "Index cs substr = Some j" "k = Suc j" by auto
      with Cons.IH show ?thesis by auto
    qed
  qed
  from nonempty have "0 < length substr" by simp
  moreover from found have "m + length substr \<le> length s" by (rule inside)
  ultimately show "((drop (m + length substr) s, substr), (s, substr))
               \<in> measure (\<lambda>(s, substr). length s)"
    by (simp del: length_greater_0_conv)
qed

text \<open>
  \<^verbatim>\<open>explode\<close> (the empty-separator case of \<^verbatim>\<open>genSplit\<close>) cuts the string into at most
  \<open>n\<close> pieces of one character each, the last piece taking the rest. Go cuts at UTF-8
  sequences; here a character is a byte. The parser never splits on an empty separator.
\<close>

definition explode :: "string \<Rightarrow> int \<Rightarrow> string list" where
  "explode s n =
     (let l = int (length s);
          n = (if n < 0 \<or> n > l then l else n)
      in if n > 0 then map (\<lambda>c. [c]) (take (nat (n - 1)) s) @ [drop (nat (n - 1)) s]
         else [])"

text \<open>
  The loop of \<^verbatim>\<open>genSplit\<close> (with \<^verbatim>\<open>sepSave = 0\<close>): the first argument is \<open>n - i\<close>, the
  number of cuts still allowed; the loop also ends when the separator no longer occurs.
\<close>

fun genSplit_loop :: "nat \<Rightarrow> string \<Rightarrow> string \<Rightarrow> string list" where
  "genSplit_loop 0 s sep = [s]"
| "genSplit_loop (Suc k) s sep =
     (case Index s sep of
        None \<Rightarrow> [s]
      | Some m \<Rightarrow> take m s # genSplit_loop k (drop (m + length sep) s) sep)"

definition genSplit :: "string \<Rightarrow> string \<Rightarrow> int \<Rightarrow> string list" where
  "genSplit s sep n =
     (if n = 0 then []
      else if sep = [] then explode s n
      else
        let n = (if n < 0 then int (Count s sep) + 1 else n);
            n = (if n > int (length s) + 1 then int (length s) + 1 else n)
        in genSplit_loop (nat (n - 1)) s sep)"

definition SplitN :: "string \<Rightarrow> string \<Rightarrow> int \<Rightarrow> string list" where
  "SplitN s sep n = genSplit s sep n"

definition Split :: "string \<Rightarrow> string \<Rightarrow> string list" where
  "Split s sep = genSplit s sep (- 1)"

subsection \<open>The flag's parser\<close>

text \<open>
  The function given to \<^verbatim>\<open>flag.Func\<close> in \<^verbatim>\<open>main\<close>. It returns an error, or \<^verbatim>\<open>nil\<close>
  after assigning the set it built to \<^verbatim>\<open>skipUpdateValidationFor\<close>; the model returns
  the error or the assigned set. A \<^verbatim>\<open>map[types.NamespacedName]struct{}\<close> is a set.
  Indexing a slice out of range panics.
\<close>

datatype flag_error = errors_New string | panic_index_out_of_range

definition index :: "'a list \<Rightarrow> nat \<Rightarrow> flag_error + 'a" where
  "index xs i = (if i < length xs then Inr (xs ! i) else Inl panic_index_out_of_range)"

text \<open>The loop body after the emptiness check: the name built for one entry.\<close>

definition namespacedName_of :: "string \<Rightarrow> flag_error + NamespacedName" where
  "namespacedName_of name =
     (let splitBySlash = SplitN name ''/'' 1
      in if length splitBySlash = 1 then
           (case index splitBySlash 0 of
              Inl e \<Rightarrow> Inl e
            | Inr n \<Rightarrow> Inr \<lparr>NamespacedName.Namespace = ''default'', Name = n\<rparr>)
         else
           (case index splitBySlash 0 of
              Inl e \<Rightarrow> Inl e
            | Inr ns \<Rightarrow>
                (case index splitBySlash 1 of
                   Inl e \<Rightarrow> Inl e
                 | Inr n \<Rightarrow> Inr \<lparr>NamespacedName.Namespace = ns, Name = n\<rparr>)))"

fun skip_update_validation_for_loop ::
  "string list \<Rightarrow> NamespacedName set \<Rightarrow> flag_error + NamespacedName set" where
  "skip_update_validation_for_loop [] objSet = Inr objSet"
| "skip_update_validation_for_loop (name # names) objSet =
     (if name = [] then Inl (errors_New ''name must not be empty'')
      else case namespacedName_of name of
             Inl e \<Rightarrow> Inl e
           | Inr namespacedName \<Rightarrow>
               skip_update_validation_for_loop names (insert namespacedName objSet))"

definition skip_update_validation_for :: "string \<Rightarrow> flag_error + NamespacedName set" where
  "skip_update_validation_for value =
     (if value \<noteq> [] then skip_update_validation_for_loop (Split value '','') {}
      else Inr {})"

section \<open>The swap-resize script\<close>

text \<open>
  The script runs four external programs. A run of the script is modelled by the list of
  commands it starts, in order, and its exit status. What the programs do is outside the
  script: the system gives each command's exit status and standard output (as the
  command substitution \<^verbatim>\<open>$(...)\<close> yields it), and the value the shell computes for a
  variable holding a given text inside \<^verbatim>\<open>$((...))\<close>, \<open>None\<close> when the text is not a valid
  arithmetic expression.
\<close>

datatype command =
    blkid_L string
  | swapoff string
  | mkswap_L string string int
  | swapon_d string

text \<open>
  The script ends with an exit status, or is aborted by the shell itself (a parameter
  unset under \<^verbatim>\<open>set -u\<close>, an arithmetic error).
\<close>

datatype exit_status = Exited nat | ShellError

record system =
  status :: "command \<Rightarrow> nat"
  stdout :: "command \<Rightarrow> string"
  arith_value :: "string \<Rightarrow> int option"

text \<open>Division in shell arithmetic truncates towards zero.\<close>

definition arith_div :: "int \<Rightarrow> int \<Rightarrow> int" where
  "arith_div a b = sgn a * sgn b * (\<bar>a\<bar> div \<bar>b\<bar>)"

text \<open>
  The script, line by line. Under \<^verbatim>\<open>set -e\<close> a failing command ends the script with
  that command's status, except \<^verbatim>\<open>swapoff\<close>, whose status \<^verbatim>\<open>|| true\<close> discards.
\<close>

definition resize_swap :: "system \<Rightarrow> string list \<Rightarrow> command list \<times> exit_status" where
  "resize_swap sys argv =
     (case argv of
        [] \<Rightarrow> ([], ShellError)
      | new_size # _ \<Rightarrow>
          if status sys (blkid_L ''swapdisk'') \<noteq> 0 then
            ([blkid_L ''swapdisk''], Exited (status sys (blkid_L ''swapdisk'')))
          else
            let swapdisk = stdout sys (blkid_L ''swapdisk'')
            in if new_size = ''0'' then
                 ([blkid_L ''swapdisk'', swapoff swapdisk], Exited 0)
               else
                 (case arith_value sys new_size of
                    None \<Rightarrow> ([blkid_L ''swapdisk'', swapoff swapdisk], ShellError)
                  | Some n \<Rightarrow>
                      let kib = arith_div n 1024
                      in if status sys (mkswap_L ''swapdisk'' swapdisk kib) \<noteq> 0 then
                           ([blkid_L ''swapdisk'', swapoff swapdisk,
                             mkswap_L ''swapdisk'' swapdisk kib],
                            Exited (status sys (mkswap_L ''swapdisk'' swapdisk kib)))
                         else
                           ([blkid_L ''swapdisk'', swapoff swapdisk,
                             mkswap_L ''swapdisk'' swapdisk kib, swapon_d swapdisk],
                            Exited (status sys (swapon_d swapdisk)))))"

section \<open>Properties of the pod handlers\<close>

text \<open>
  C4: on a pod update, when the old pod is not completed and the new pod is completed,
  exactly one removal item keyed by the new pod's namespace and name is submitted, to
  the VM-removal callback when the pod carries the VM label and to the pod-removal
  callback otherwise; in every other case nothing is submitted.
\<close>

theorem pod_update_removal:
  "pod_submitted (watchPodEvents_UpdateFunc LabelVM PodCompleted oldPod newPod) =
     (if \<not> PodCompleted oldPod \<and> PodCompleted newPod then
        (if Labels newPod LabelVM \<noteq> None
         then [submitVMDeletion \<lparr>NamespacedName.Namespace = ObjectMeta.Namespace newPod,
                                 Name = ObjectMeta.Name newPod\<rparr>]
         else [submitPodDeletion \<lparr>NamespacedName.Namespace = ObjectMeta.Namespace newPod,
                                  Name = ObjectMeta.Name newPod\<rparr>])
      else [])"
  by (simp add: watchPodEvents_UpdateFunc_def pod_submitted_def Let_def)

theorem pod_update_removal_witness:
  "pod_submitted (watchPodEvents_UpdateFunc ''vm.neon.tech/name''
      (\<lambda>p. Phase (Pod.Status p) = ''Succeeded'' \<or> Phase (Pod.Status p) = ''Failed'')
      \<lparr>ObjectMeta.Name = ''pod2'', Namespace = ''ns'', Labels = Map.empty,
         Pod.Status = \<lparr>Phase = ''Running''\<rparr>\<rparr>
      \<lparr>ObjectMeta.Name = ''pod2'', Namespace = ''ns'', Labels = Map.empty,
         Pod.Status = \<lparr>Phase = ''Succeeded''\<rparr>\<rparr>)
   = [submitPodDeletion \<lparr>NamespacedName.Namespace = ''ns'', Name = ''pod2''\<rparr>]"
  using pod_update_removal [of "''vm.neon.tech/name''"
      "(\<lambda>p. Phase (Pod.Status p) = ''Succeeded'' \<or> Phase (Pod.Status p) = ''Failed'')"
      "\<lparr>ObjectMeta.Name = ''pod2'', Namespace = ''ns'', Labels = Map.empty,
         Pod.Status = \<lparr>Phase = ''Running''\<rparr>\<rparr>"
      "\<lparr>ObjectMeta.Name = ''pod2'', Namespace = ''ns'', Labels = Map.empty,
         Pod.Status = \<lparr>Phase = ''Succeeded''\<rparr>\<rparr>"]
  by simp

text \<open>
  C5: on a pod delete event, a pod that is not completed yields exactly one removal item
  keyed by its namespace and name (VM-labelled pods to the VM-removal callback, others to
  the pod-removal callback); a pod that is already completed yields none.
\<close>

theorem pod_delete_removal:
  "pod_submitted (watchPodEvents_DeleteFunc LabelVM PodCompleted pod mayBeStale) =
     (if PodCompleted pod then []
      else if Labels pod LabelVM \<noteq> None
        then [submitVMDeletion \<lparr>NamespacedName.Namespace = ObjectMeta.Namespace pod,
                                Name = ObjectMeta.Name pod\<rparr>]
        else [submitPodDeletion \<lparr>NamespacedName.Namespace = ObjectMeta.Namespace pod,
                                 Name = ObjectMeta.Name pod\<rparr>])"
  by (simp add: watchPodEvents_DeleteFunc_def pod_submitted_def Let_def)

theorem pod_delete_removal_witness:
  "pod_submitted (watchPodEvents_DeleteFunc ''vm.neon.tech/name''
      (\<lambda>p. Phase (Pod.Status p) = ''Succeeded'' \<or> Phase (Pod.Status p) = ''Failed'')
      \<lparr>ObjectMeta.Name = ''pod1'', Namespace = ''ns'', Labels = [''vm.neon.tech/name'' \<mapsto> ''vm1''],
         Pod.Status = \<lparr>Phase = ''Running''\<rparr>\<rparr> True)
   = [submitVMDeletion \<lparr>NamespacedName.Namespace = ''ns'', Name = ''pod1''\<rparr>]
   \<and> pod_submitted (watchPodEvents_DeleteFunc ''vm.neon.tech/name''
      (\<lambda>p. Phase (Pod.Status p) = ''Succeeded'' \<or> Phase (Pod.Status p) = ''Failed'')
      \<lparr>ObjectMeta.Name = ''pod1'', Namespace = ''ns'', Labels = [''vm.neon.tech/name'' \<mapsto> ''vm1''],
         Pod.Status = \<lparr>Phase = ''Failed''\<rparr>\<rparr> False)
   = []"
  using pod_delete_removal [of "''vm.neon.tech/name''"
      "(\<lambda>p. Phase (Pod.Status p) = ''Succeeded'' \<or> Phase (Pod.Status p) = ''Failed'')"
      "\<lparr>ObjectMeta.Name = ''pod1'', Namespace = ''ns'', Labels = [''vm.neon.tech/name'' \<mapsto> ''vm1''],
         Pod.Status = \<lparr>Phase = ''Running''\<rparr>\<rparr>" True]
    pod_delete_removal [of "''vm.neon.tech/name''"
      "(\<lambda>p. Phase (Pod.Status p) = ''Succeeded'' \<or> Phase (Pod.Status p) = ''Failed'')"
      "\<lparr>ObjectMeta.Name = ''pod1'', Namespace = ''ns'', Labels = [''vm.neon.tech/name'' \<mapsto> ''vm1''],
         Pod.Status = \<lparr>Phase = ''Failed''\<rparr>\<rparr>" False]
  by simp

text \<open>
  C8: the delete handler makes the same calls whether \<open>mayBeStale\<close> is true or false.
  Its calls are determined by the pod's completion state and the presence of the VM
  label, together with the namespace and name that key the item: two pods that agree on
  these are handled alike, whatever the two flags.
\<close>

theorem pod_delete_stale_irrelevant:
  "watchPodEvents_DeleteFunc LabelVM PodCompleted p True
     = watchPodEvents_DeleteFunc LabelVM PodCompleted p False
   \<and> (ObjectMeta.Name p = ObjectMeta.Name q \<and> ObjectMeta.Namespace p = ObjectMeta.Namespace q
        \<and> PodCompleted p = PodCompleted q
        \<and> (Labels p LabelVM \<noteq> None) = (Labels q LabelVM \<noteq> None)
      \<longrightarrow> watchPodEvents_DeleteFunc LabelVM PodCompleted p s
            = watchPodEvents_DeleteFunc LabelVM PodCompleted q t)"
  by (simp add: watchPodEvents_DeleteFunc_def Let_def)

theorem pod_delete_stale_irrelevant_witness:
  "pod_submitted (watchPodEvents_DeleteFunc ''vm.neon.tech/name''
      (\<lambda>p. Phase (Pod.Status p) = ''Succeeded'' \<or> Phase (Pod.Status p) = ''Failed'')
      \<lparr>ObjectMeta.Name = ''pod3'', Namespace = ''ns'', Labels = Map.empty,
         Pod.Status = \<lparr>Phase = ''Running''\<rparr>\<rparr> True)
   = pod_submitted (watchPodEvents_DeleteFunc ''vm.neon.tech/name''
      (\<lambda>p. Phase (Pod.Status p) = ''Succeeded'' \<or> Phase (Pod.Status p) = ''Failed'')
      \<lparr>ObjectMeta.Name = ''pod3'', Namespace = ''ns'', Labels = [''app'' \<mapsto> ''web''],
         Pod.Status = \<lparr>Phase = ''Pending''\<rparr>\<rparr> False)"
  (is "pod_submitted (watchPodEvents_DeleteFunc ?L ?C ?p True)
       = pod_submitted (watchPodEvents_DeleteFunc ?L ?C ?q False)")
proof -
  have same: "ObjectMeta.Name ?p = ObjectMeta.Name ?q
      \<and> ObjectMeta.Namespace ?p = ObjectMeta.Namespace ?q
      \<and> ?C ?p = ?C ?q
      \<and> (Labels ?p ?L \<noteq> None) = (Labels ?q ?L \<noteq> None)"
    by simp
  show ?thesis
    using pod_delete_stale_irrelevant [where p = ?p and q = ?q and PodCompleted = ?C
        and LabelVM = ?L and s = True and t = False, THEN conjunct2, THEN mp, OF same]
    by (rule arg_cong)
qed

text \<open>
  C2: an update that takes a pod from not completed to completed, followed by a delete
  event for the completed pod, submits exactly one removal item in total: the update
  submits it, and the delete submits nothing.
\<close>

theorem pod_complete_then_delete_once:
  assumes "\<not> PodCompleted oldPod" and "PodCompleted newPod" and "PodCompleted deleted"
  shows "pod_submitted (watchPodEvents_UpdateFunc LabelVM PodCompleted oldPod newPod
                        @ watchPodEvents_DeleteFunc LabelVM PodCompleted deleted mayBeStale)
         = [if Labels newPod LabelVM \<noteq> None
            then submitVMDeletion \<lparr>NamespacedName.Namespace = ObjectMeta.Namespace newPod,
                                   Name = ObjectMeta.Name newPod\<rparr>
            else submitPodDeletion \<lparr>NamespacedName.Namespace = ObjectMeta.Namespace newPod,
                                    Name = ObjectMeta.Name newPod\<rparr>]
       \<and> pod_submitted (watchPodEvents_UpdateFunc LabelVM PodCompleted oldPod newPod)
         = pod_submitted (watchPodEvents_UpdateFunc LabelVM PodCompleted oldPod newPod
                        @ watchPodEvents_DeleteFunc LabelVM PodCompleted deleted mayBeStale)
       \<and> pod_submitted (watchPodEvents_DeleteFunc LabelVM PodCompleted deleted mayBeStale) = []"
  using assms
  by (simp add: watchPodEvents_UpdateFunc_def watchPodEvents_DeleteFunc_def
        pod_submitted_def Let_def)

theorem pod_complete_then_delete_once_witness:
  "pod_submitted
     (watchPodEvents_UpdateFunc ''vm.neon.tech/name''
        (\<lambda>p. Phase (Pod.Status p) = ''Succeeded'' \<or> Phase (Pod.Status p) = ''Failed'')
        \<lparr>ObjectMeta.Name = ''pod2'', Namespace = ''ns'', Labels = Map.empty,
         Pod.Status = \<lparr>Phase = ''Running''\<rparr>\<rparr>
        \<lparr>ObjectMeta.Name = ''pod2'', Namespace = ''ns'', Labels = Map.empty,
         Pod.Status = \<lparr>Phase = ''Succeeded''\<rparr>\<rparr>
      @ watchPodEvents_DeleteFunc ''vm.neon.tech/name''
        (\<lambda>p. Phase (Pod.Status p) = ''Succeeded'' \<or> Phase (Pod.Status p) = ''Failed'')
        \<lparr>ObjectMeta.Name = ''pod2'', Namespace = ''ns'', Labels = Map.empty,
         Pod.Status = \<lparr>Phase = ''Succeeded''\<rparr>\<rparr> False)
   = [submitPodDeletion \<lparr>NamespacedName.Namespace = ''ns'', Name = ''pod2''\<rparr>]"
  (is "pod_submitted (watchPodEvents_UpdateFunc ?L ?C ?old ?new
                      @ watchPodEvents_DeleteFunc ?L ?C ?new False) = _")
proof -
  have running: "\<not> ?C ?old" by simp
  have succeeded: "?C ?new" by simp
  show ?thesis
    using pod_complete_then_delete_once [where PodCompleted = ?C, OF running succeeded succeeded,
        where LabelVM = ?L and mayBeStale = False]
    by simp
qed

section \<open>Properties of the VM update handler\<close>

text \<open>
  C1: when both extractions succeed and the new VM's pod name is not empty, a
  bounds-changed item is submitted exactly when the old and new pod names are equal and
  the scaling bounds are not equal; it is then submitted once, with the new info and the
  new pod name. So equal bounds submit none, and a changed pod name submits none even
  when the bounds differ.
\<close>

theorem vm_update_bounds_changed:
  assumes "ExtractVmInfo oldVM = Inr oldInfo" and "ExtractVmInfo newVM = Inr newInfo"
    and "PodName (VirtualMachine.Status newVM) \<noteq> []"
  shows "filter is_bounds_changed
           (watchVMEvents_UpdateFunc ExtractVmInfo EqualScalingBounds oldVM newVM) =
         (if PodName (VirtualMachine.Status oldVM) = PodName (VirtualMachine.Status newVM)
             \<and> \<not> EqualScalingBounds oldInfo newInfo
          then [submitVMBoundsChanged newInfo (PodName (VirtualMachine.Status newVM))]
          else [])"
  using assms by (simp add: watchVMEvents_UpdateFunc_def Let_def)

theorem vm_update_bounds_changed_witness:
  "filter is_bounds_changed
     (watchVMEvents_UpdateFunc
        (\<lambda>vm. if ObjectMeta.Name vm = [] then Inl ''missing name''
            else Inr \<lparr>VmInfo.Name = ObjectMeta.Name vm, Namespace = ObjectMeta.Namespace vm,
                      ScalingEnabled = fst (VirtualMachine.more vm),
                      \<dots> = snd (VirtualMachine.more vm)\<rparr>)
        (\<lambda>a b. VmInfo.more a = VmInfo.more b)
        \<lparr>ObjectMeta.Name = ''vm1'', Namespace = ''ns'', Labels = Map.empty,
         VirtualMachine.Status = \<lparr>PodName = ''pod1''\<rparr>,
         \<dots> = (True, 1::nat, 4::nat)\<rparr>
        \<lparr>ObjectMeta.Name = ''vm1'', Namespace = ''ns'', Labels = Map.empty,
         VirtualMachine.Status = \<lparr>PodName = ''pod1''\<rparr>,
         \<dots> = (True, 1::nat, 8::nat)\<rparr>)
   = [submitVMBoundsChanged
        \<lparr>VmInfo.Name = ''vm1'', Namespace = ''ns'', ScalingEnabled = True,
         \<dots> = (1::nat, 8::nat)\<rparr> ''pod1'']
   \<and> filter is_bounds_changed
     (watchVMEvents_UpdateFunc
        (\<lambda>vm. if ObjectMeta.Name vm = [] then Inl ''missing name''
            else Inr \<lparr>VmInfo.Name = ObjectMeta.Name vm, Namespace = ObjectMeta.Namespace vm,
                      ScalingEnabled = fst (VirtualMachine.more vm),
                      \<dots> = snd (VirtualMachine.more vm)\<rparr>)
        (\<lambda>a b. VmInfo.more a = VmInfo.more b)
        \<lparr>ObjectMeta.Name = ''vm1'', Namespace = ''ns'', Labels = Map.empty,
         VirtualMachine.Status = \<lparr>PodName = ''pod1''\<rparr>,
         \<dots> = (True, 1::nat, 8::nat)\<rparr>
        \<lparr>ObjectMeta.Name = ''vm1'', Namespace = ''ns'', Labels = Map.empty,
         VirtualMachine.Status = \<lparr>PodName = ''pod1''\<rparr>,
         \<dots> = (True, 1::nat, 8::nat)\<rparr>)
   = []"
  (is "filter _ (watchVMEvents_UpdateFunc ?E ?EQ ?vm4 ?vm8) = [submitVMBoundsChanged ?info8 _]
       \<and> _")
proof -
  have old4: "?E ?vm4 = Inr \<lparr>VmInfo.Name = ''vm1'', Namespace = ''ns'', ScalingEnabled = True,
         \<dots> = (1::nat, 4::nat)\<rparr>"
    by simp
  have new8: "?E ?vm8 = Inr ?info8" by simp
  have pod: "PodName (VirtualMachine.Status ?vm8) \<noteq> []" by simp
  show ?thesis
    using vm_update_bounds_changed [where ExtractVmInfo = ?E, OF old4 new8 pod,
        where EqualScalingBounds = ?EQ]
      vm_update_bounds_changed [where ExtractVmInfo = ?E, OF new8 new8 pod,
        where EqualScalingBounds = ?EQ]
    by simp
qed

text \<open>
  C3: when both extractions succeed and the new VM's pod name is not empty, an update
  from scaling enabled to scaling disabled submits exactly one disable-scaling item,
  keyed by the namespace of the new VM and the new VM's status pod name. The handler
  reads the namespace from the info extracted from the new VM; where the extraction
  copies the VM's namespace, the key is the VM's own namespace.
\<close>

theorem vm_update_disabled_scaling:
  assumes "ExtractVmInfo oldVM = Inr oldInfo" and "ExtractVmInfo newVM = Inr newInfo"
    and "PodName (VirtualMachine.Status newVM) \<noteq> []"
    and "ScalingEnabled oldInfo" and "\<not> ScalingEnabled newInfo"
  shows "filter is_disabled_scaling
           (watchVMEvents_UpdateFunc ExtractVmInfo EqualScalingBounds oldVM newVM) =
         [submitVMDisabledScaling
            \<lparr>NamespacedName.Namespace = VmInfo.Namespace newInfo,
             Name = PodName (VirtualMachine.Status newVM)\<rparr>]
       \<and> (VmInfo.Namespace newInfo = ObjectMeta.Namespace newVM \<longrightarrow>
            filter is_disabled_scaling
              (watchVMEvents_UpdateFunc ExtractVmInfo EqualScalingBounds oldVM newVM) =
            [submitVMDisabledScaling
               \<lparr>NamespacedName.Namespace = ObjectMeta.Namespace newVM,
                Name = PodName (VirtualMachine.Status newVM)\<rparr>])"
  using assms by (simp add: watchVMEvents_UpdateFunc_def Let_def)

theorem vm_update_disabled_scaling_witness:
  "filter is_disabled_scaling
     (watchVMEvents_UpdateFunc
        (\<lambda>vm. if ObjectMeta.Name vm = [] then Inl ''missing name''
            else Inr \<lparr>VmInfo.Name = ObjectMeta.Name vm, Namespace = ObjectMeta.Namespace vm,
                      ScalingEnabled = fst (VirtualMachine.more vm),
                      \<dots> = snd (VirtualMachine.more vm)\<rparr>)
        (\<lambda>a b. VmInfo.more a = VmInfo.more b)
        \<lparr>ObjectMeta.Name = ''vm1'', Namespace = ''ns'', Labels = Map.empty,
         VirtualMachine.Status = \<lparr>PodName = ''pod1''\<rparr>,
         \<dots> = (True, 1::nat, 8::nat)\<rparr>
        \<lparr>ObjectMeta.Name = ''vm1'', Namespace = ''ns'', Labels = Map.empty,
         VirtualMachine.Status = \<lparr>PodName = ''pod1''\<rparr>,
         \<dots> = (False, 1::nat, 8::nat)\<rparr>)
   = [submitVMDisabledScaling \<lparr>NamespacedName.Namespace = ''ns'', Name = ''pod1''\<rparr>]"
  (is "filter _ (watchVMEvents_UpdateFunc ?E ?EQ ?on ?off) = _")
proof -
  have old_on: "?E ?on = Inr \<lparr>VmInfo.Name = ''vm1'', Namespace = ''ns'', ScalingEnabled = True,
         \<dots> = (1::nat, 8::nat)\<rparr>"
    by simp
  have new_off: "?E ?off = Inr \<lparr>VmInfo.Name = ''vm1'', Namespace = ''ns'', ScalingEnabled = False,
         \<dots> = (1::nat, 8::nat)\<rparr>"
    by simp
  have pod: "PodName (VirtualMachine.Status ?off) \<noteq> []" by simp
  have enabled: "ScalingEnabled \<lparr>VmInfo.Name = ''vm1'', Namespace = ''ns'', ScalingEnabled = True,
         \<dots> = (1::nat, 8::nat)\<rparr>"
    by simp
  have disabled: "\<not> ScalingEnabled \<lparr>VmInfo.Name = ''vm1'', Namespace = ''ns'', ScalingEnabled = False,
         \<dots> = (1::nat, 8::nat)\<rparr>"
    by simp
  show ?thesis
    using vm_update_disabled_scaling [where ExtractVmInfo = ?E,
        OF old_on new_off pod enabled disabled, where EqualScalingBounds = ?EQ]
    by simp
qed

text \<open>
  C6: when extraction fails for the old or for the new VM, the handler submits nothing;
  it logs the error and returns. When the old VM's extraction fails, that is the only
  extraction made: the new VM is not extracted.
\<close>

theorem vm_update_extraction_failure:
  assumes "ExtractVmInfo oldVM = Inl err \<or> ExtractVmInfo newVM = Inl err"
  shows "vm_submitted (watchVMEvents_UpdateFunc ExtractVmInfo EqualScalingBounds oldVM newVM) = []
       \<and> filter is_extraction
            (watchVMEvents_UpdateFunc ExtractVmInfo EqualScalingBounds oldVM newVM)
          = (case ExtractVmInfo oldVM of
               Inl _ \<Rightarrow> [api_ExtractVmInfo oldVM]
             | Inr _ \<Rightarrow> [api_ExtractVmInfo oldVM, api_ExtractVmInfo newVM])
       \<and> filter (\<lambda>c. \<not> is_extraction c)
            (watchVMEvents_UpdateFunc ExtractVmInfo EqualScalingBounds oldVM newVM)
          = (case ExtractVmInfo oldVM of
               Inl e \<Rightarrow>
                 [VM_klog (Errorf ''[autoscale-enforcer] Error extracting VM info for %v: %s''
                    [ArgName (GetNamespacedName oldVM), ArgErr e])]
             | Inr _ \<Rightarrow>
                 [VM_klog (Errorf ''[autoscale-enforcer] Error extracting VM info for %v: %s''
                    [ArgName (GetNamespacedName newVM), ArgErr err])])"
  using assms
  by (auto simp add: watchVMEvents_UpdateFunc_def vm_submitted_def split: sum.splits)

theorem vm_update_extraction_failure_witness:
  "filter is_extraction
     (watchVMEvents_UpdateFunc
        (\<lambda>vm. if ObjectMeta.Name vm = [] then Inl ''missing name''
            else Inr \<lparr>VmInfo.Name = ObjectMeta.Name vm, Namespace = ObjectMeta.Namespace vm,
                      ScalingEnabled = fst (VirtualMachine.more vm),
                      \<dots> = snd (VirtualMachine.more vm)\<rparr>)
        (\<lambda>a b. VmInfo.more a = VmInfo.more b)
        \<lparr>ObjectMeta.Name = [], Namespace = ''ns'', Labels = Map.empty,
         VirtualMachine.Status = \<lparr>PodName = ''pod1''\<rparr>,
         \<dots> = (True, 1::nat, 8::nat)\<rparr>
        \<lparr>ObjectMeta.Name = ''vm1'', Namespace = ''ns'', Labels = Map.empty,
         VirtualMachine.Status = \<lparr>PodName = ''pod1''\<rparr>,
         \<dots> = (True, 1::nat, 8::nat)\<rparr>)
   = [api_ExtractVmInfo
        \<lparr>ObjectMeta.Name = [], Namespace = ''ns'', Labels = Map.empty,
         VirtualMachine.Status = \<lparr>PodName = ''pod1''\<rparr>,
         \<dots> = (True, 1::nat, 8::nat)\<rparr>]
   \<and> vm_submitted
     (watchVMEvents_UpdateFunc
        (\<lambda>vm. if ObjectMeta.Name vm = [] then Inl ''missing name''
            else Inr \<lparr>VmInfo.Name = ObjectMeta.Name vm, Namespace = ObjectMeta.Namespace vm,
                      ScalingEnabled = fst (VirtualMachine.more vm),
                      \<dots> = snd (VirtualMachine.more vm)\<rparr>)
        (\<lambda>a b. VmInfo.more a = VmInfo.more b)
        \<lparr>ObjectMeta.Name = [], Namespace = ''ns'', Labels = Map.empty,
         VirtualMachine.Status = \<lparr>PodName = ''pod1''\<rparr>,
         \<dots> = (True, 1::nat, 8::nat)\<rparr>
        \<lparr>ObjectMeta.Name = ''vm1'', Namespace = ''ns'', Labels = Map.empty,
         VirtualMachine.Status = \<lparr>PodName = ''pod1''\<rparr>,
         \<dots> = (True, 1::nat, 8::nat)\<rparr>)
   = []
   \<and> vm_submitted
     (watchVMEvents_UpdateFunc
        (\<lambda>vm. if ObjectMeta.Name vm = [] then Inl ''missing name''
            else Inr \<lparr>VmInfo.Name = ObjectMeta.Name vm, Namespace = ObjectMeta.Namespace vm,
                      ScalingEnabled = fst (VirtualMachine.more vm),
                      \<dots> = snd (VirtualMachine.more vm)\<rparr>)
        (\<lambda>a b. VmInfo.more a = VmInfo.more b)
        \<lparr>ObjectMeta.Name = ''vm1'', Namespace = ''ns'', Labels = Map.empty,
         VirtualMachine.Status = \<lparr>PodName = ''pod1''\<rparr>,
         \<dots> = (True, 1::nat, 8::nat)\<rparr>
        \<lparr>ObjectMeta.Name = [], Namespace = ''ns'', Labels = Map.empty,
         VirtualMachine.Status = \<lparr>PodName = ''pod1''\<rparr>,
         \<dots> = (True, 1::nat, 8::nat)\<rparr>)
   = []"
  (is "filter _ (watchVMEvents_UpdateFunc ?E ?EQ ?bad ?good) = _ \<and> _ \<and> _")
proof -
  have bad: "?E ?bad = Inl ''missing name''" by simp
  have first_fails: "?E ?bad = Inl ''missing name'' \<or> ?E ?good = Inl ''missing name''"
    using bad by (rule disjI1)
  have second_fails: "?E ?good = Inl ''missing name'' \<or> ?E ?bad = Inl ''missing name''"
    using bad by (rule disjI2)
  show ?thesis
    using vm_update_extraction_failure [where ExtractVmInfo = ?E, OF first_fails,
        where EqualScalingBounds = ?EQ]
      vm_update_extraction_failure [where ExtractVmInfo = ?E, OF second_fails,
        where EqualScalingBounds = ?EQ]
    by simp
qed

text \<open>
  C7: when both extractions succeed but the new VM's status pod name is empty, the
  handler submits neither a disable-scaling nor a bounds-changed item, whatever the old
  and new infos are.
\<close>

theorem vm_update_empty_pod_name:
  assumes "ExtractVmInfo oldVM = Inr oldInfo" and "ExtractVmInfo newVM = Inr newInfo"
    and "PodName (VirtualMachine.Status newVM) = []"
  shows "vm_submitted (watchVMEvents_UpdateFunc ExtractVmInfo EqualScalingBounds oldVM newVM) = []"
  using assms by (simp add: watchVMEvents_UpdateFunc_def vm_submitted_def)

theorem vm_update_empty_pod_name_witness:
  "vm_submitted
     (watchVMEvents_UpdateFunc
        (\<lambda>vm. if ObjectMeta.Name vm = [] then Inl ''missing name''
            else Inr \<lparr>VmInfo.Name = ObjectMeta.Name vm, Namespace = ObjectMeta.Namespace vm,
                      ScalingEnabled = fst (VirtualMachine.more vm),
                      \<dots> = snd (VirtualMachine.more vm)\<rparr>)
        (\<lambda>a b. VmInfo.more a = VmInfo.more b)
        \<lparr>ObjectMeta.Name = ''vm1'', Namespace = ''ns'', Labels = Map.empty,
         VirtualMachine.Status = \<lparr>PodName = ''pod1''\<rparr>,
         \<dots> = (True, 1::nat, 4::nat)\<rparr>
        \<lparr>ObjectMeta.Name = ''vm1'', Namespace = ''ns'', Labels = Map.empty,
         VirtualMachine.Status = \<lparr>PodName = []\<rparr>,
         \<dots> = (False, 2::nat, 8::nat)\<rparr>)
   = []"
  (is "vm_submitted (watchVMEvents_UpdateFunc ?E ?EQ ?old ?new) = _")
proof -
  have old_ok: "?E ?old = Inr \<lparr>VmInfo.Name = ''vm1'', Namespace = ''ns'', ScalingEnabled = True,
         \<dots> = (1::nat, 4::nat)\<rparr>"
    by simp
  have new_ok: "?E ?new = Inr \<lparr>VmInfo.Name = ''vm1'', Namespace = ''ns'', ScalingEnabled = False,
         \<dots> = (2::nat, 8::nat)\<rparr>"
    by simp
  have no_pod: "PodName (VirtualMachine.Status ?new) = []" by simp
  show ?thesis
    using vm_update_empty_pod_name [where ExtractVmInfo = ?E, OF old_ok new_ok no_pod,
        where EqualScalingBounds = ?EQ]
    by simp
qed

section \<open>Properties of the flag parser\<close>

lemma SplitN_one: "sep \<noteq> [] \<Longrightarrow> SplitN s sep 1 = [s]"
  by (simp add: SplitN_def genSplit_def)

lemma namespacedName_of_default:
  "namespacedName_of name = Inr \<lparr>NamespacedName.Namespace = ''default'', Name = name\<rparr>"
  by (simp add: namespacedName_of_def SplitN_one index_def)

lemma skip_update_validation_for_loop_eq:
  "skip_update_validation_for_loop names objSet =
     (if [] \<in> set names then Inl (errors_New ''name must not be empty'')
      else Inr ((\<lambda>name. \<lparr>NamespacedName.Namespace = ''default'', Name = name\<rparr>) ` set names
                \<union> objSet))"
  by (induction names arbitrary: objSet) (auto simp: namespacedName_of_default)

text \<open>
  C9: with a limit of 1, \<^verbatim>\<open>strings.SplitN\<close> returns the entry whole, so the branch for a
  single element is always taken and an entry is never divided at a slash: every entry,
  also one of the form \<open>ns/bar\<close>, becomes the name in namespace \<open>default\<close> whose
  \<open>Name\<close> is the entire entry. The parser accepts a value without empty entries and
  yields exactly these names.
\<close>

theorem skip_update_validation_never_splits:
  "SplitN name ''/'' 1 = [name]
   \<and> namespacedName_of name = Inr \<lparr>NamespacedName.Namespace = ''default'', Name = name\<rparr>
   \<and> skip_update_validation_for value =
       (if value = [] then Inr {}
        else if [] \<in> set (Split value '','') then Inl (errors_New ''name must not be empty'')
        else Inr ((\<lambda>name. \<lparr>NamespacedName.Namespace = ''default'', Name = name\<rparr>)
                    ` set (Split value '','')))"
  by (simp add: SplitN_one namespacedName_of_default skip_update_validation_for_def
        skip_update_validation_for_loop_eq)

theorem skip_update_validation_never_splits_witness:
  "skip_update_validation_for ''foo,ns/bar'' =
     Inr {\<lparr>NamespacedName.Namespace = ''default'', Name = ''foo''\<rparr>,
          \<lparr>NamespacedName.Namespace = ''default'', Name = ''ns/bar''\<rparr>}
   \<and> SplitN ''ns/bar'' ''/'' 1 = [''ns/bar'']"
proof -
  have entries: "Split ''foo,ns/bar'' '','' = [''foo'', ''ns/bar'']"
    by code_simp
  show ?thesis
    using skip_update_validation_never_splits [of "''ns/bar''" "''foo,ns/bar''"]
    by (simp add: entries)
qed

section \<open>Properties of the swap-resize script\<close>

lemma arith_div_nonneg: "0 \<le> n \<Longrightarrow> arith_div n 1024 = n div 1024"
  by (cases "n = 0") (simp_all add: arith_div_def)

text \<open>
  C10: provided a disk labelled \<open>swapdisk\<close> is found, the script first turns swap off
  on it, whatever \<^verbatim>\<open>swapoff\<close> returns. For the argument \<open>0\<close> it then exits with status
  0 and runs nothing more. For any other argument of value \<open>N\<close> it runs \<^verbatim>\<open>mkswap\<close> with
  \<open>N / 1024\<close> and, \<^verbatim>\<open>mkswap\<close> having succeeded, \<^verbatim>\<open>swapon\<close>; for a size \<open>N \<ge> 0\<close> the
  quotient is \<open>N div 1024\<close>, that is \<open>N\<close> rounded down to a multiple of 1024 bytes.
\<close>

theorem resize_swap_behaviour:
  assumes "status sys (blkid_L ''swapdisk'') = 0"
    and "swapdisk = stdout sys (blkid_L ''swapdisk'')"
  shows "take 2 (fst (resize_swap sys (new_size # args)))
           = [blkid_L ''swapdisk'', swapoff swapdisk]
       \<and> resize_swap (sys\<lparr>status := (status sys)(swapoff swapdisk := k)\<rparr>) (new_size # args)
           = resize_swap sys (new_size # args)
       \<and> (new_size = ''0'' \<longrightarrow>
            resize_swap sys (new_size # args)
              = ([blkid_L ''swapdisk'', swapoff swapdisk], Exited 0))
       \<and> (new_size \<noteq> ''0'' \<and> arith_value sys new_size = Some N
            \<and> status sys (mkswap_L ''swapdisk'' swapdisk (arith_div N 1024)) = 0 \<longrightarrow>
            resize_swap sys (new_size # args)
              = ([blkid_L ''swapdisk'', swapoff swapdisk,
                  mkswap_L ''swapdisk'' swapdisk (arith_div N 1024), swapon_d swapdisk],
                 Exited (status sys (swapon_d swapdisk))))
       \<and> (0 \<le> N \<longrightarrow> arith_div N 1024 = N div 1024
                    \<and> 1024 * arith_div N 1024 = N - N mod 1024)"
proof (intro conjI impI)
  show "take 2 (fst (resize_swap sys (new_size # args)))
           = [blkid_L ''swapdisk'', swapoff swapdisk]"
    using assms by (simp add: resize_swap_def Let_def split: option.splits)
next
  show "resize_swap (sys\<lparr>status := (status sys)(swapoff swapdisk := k)\<rparr>) (new_size # args)
           = resize_swap sys (new_size # args)"
    using assms by (simp add: resize_swap_def Let_def split: option.splits)
next
  assume "new_size = ''0''"
  then show "resize_swap sys (new_size # args)
              = ([blkid_L ''swapdisk'', swapoff swapdisk], Exited 0)"
    using assms by (simp add: resize_swap_def)
next
  assume "new_size \<noteq> ''0'' \<and> arith_value sys new_size = Some N
            \<and> status sys (mkswap_L ''swapdisk'' swapdisk (arith_div N 1024)) = 0"
  then show "resize_swap sys (new_size # args)
              = ([blkid_L ''swapdisk'', swapoff swapdisk,
                  mkswap_L ''swapdisk'' swapdisk (arith_div N 1024), swapon_d swapdisk],
                 Exited (status sys (swapon_d swapdisk)))"
    using assms by (simp add: resize_swap_def Let_def)
next
  assume "0 \<le> N"
  then show "arith_div N 1024 = N div 1024" by (rule arith_div_nonneg)
next
  assume "0 \<le> N"
  then have "arith_div N 1024 = N div 1024" by (rule arith_div_nonneg)
  then show "1024 * arith_div N 1024 = N - N mod 1024"
    by (simp add: mult_div_mod_eq [symmetric] algebra_simps)
qed

theorem resize_swap_behaviour_witness:
  "resize_swap \<lparr>status = (\<lambda>c. if c = swapoff ''/dev/vdb'' then 1 else 0),
                stdout = (\<lambda>c. if c = blkid_L ''swapdisk'' then ''/dev/vdb'' else []),
                arith_value = (\<lambda>t. if t = ''5000'' then Some 5000 else None)\<rparr> [''5000'']
     = ([blkid_L ''swapdisk'', swapoff ''/dev/vdb'', mkswap_L ''swapdisk'' ''/dev/vdb'' 4,
         swapon_d ''/dev/vdb''], Exited 0)
   \<and> resize_swap \<lparr>status = (\<lambda>c. if c = swapoff ''/dev/vdb'' then 1 else 0),
                stdout = (\<lambda>c. if c = blkid_L ''swapdisk'' then ''/dev/vdb'' else []),
                arith_value = (\<lambda>t. if t = ''5000'' then Some 5000 else None)\<rparr> [''0'']
     = ([blkid_L ''swapdisk'', swapoff ''/dev/vdb''], Exited 0)"
  (is "resize_swap ?sys _ = _ \<and> _")
proof -
  have found: "status ?sys (blkid_L ''swapdisk'') = 0" by simp
  have disk: "''/dev/vdb'' = stdout ?sys (blkid_L ''swapdisk'')" by simp
  have kib: "arith_div 5000 1024 = 4" by (simp add: arith_div_def)
  show ?thesis
    using resize_swap_behaviour [OF found disk,
          where new_size = "''5000''" and args = "[]" and k = 0 and N = 5000]
      resize_swap_behaviour [OF found disk,
          where new_size = "''0''" and args = "[]" and k = 0 and N = 0]
    by (simp add: kib)
qed

end
